theory Spec2Isabelle
  imports Complex_Main "HOL-Library.Sublist"
begin

section \<open>Python values and exceptions\<close>

text \<open>
  Every \<^verbatim>\<open>raise\<close>, failed \<^verbatim>\<open>assert\<close> and failing subscript of the
  source is a value of \<open>error\<close>; a function that can raise returns \<open>error + 'a\<close>.
  Floating-point numbers are idealised as reals: rounding and overflow are not modelled.
  The one value that is not a number is kept where the source can produce it from
  well-formed tensors: the mean of a tensor with no elements is \<open>nan\<close>.
\<close>

datatype error =
    ValueError string
  | KeyError string
  | TypeError string
  | AttributeError string
  | AssertionError
  | IndexError
  | StopIteration
  | RuntimeError

datatype pyval = PyNone | PyFloat real | PyTensor "real list"

text \<open>Keyword arguments \<^verbatim>\<open>**kwargs\<close>: a dict from names to values, in call order.\<close>

type_synonym kwargs = "(string \<times> pyval) list"

definition getitem :: "(string \<times> 'v) list \<Rightarrow> string \<Rightarrow> error + 'v" where
  \<comment> \<open>\<^verbatim>\<open>d[k]\<close> on a dict: KeyError when the key is missing.\<close>
  "getitem d k = (case map_of d k of None \<Rightarrow> Inl (KeyError k) | Some v \<Rightarrow> Inr v)"

fun join :: "string \<Rightarrow> string list \<Rightarrow> string" where
  "join sep [] = []"
| "join sep [x] = x"
| "join sep (x # y # ys) = x @ sep @ join sep (y # ys)"

fun contains :: "string \<Rightarrow> string \<Rightarrow> bool" where
  \<comment> \<open>\<^verbatim>\<open>pat in s\<close> on Python strings: \<open>pat\<close> occurs as a contiguous substring.\<close>
  "contains pat [] = (pat = [])"
| "contains pat (c # cs) = (prefix pat (c # cs) \<or> contains pat cs)"

section \<open>losses.py: the loss registry\<close>

definition method_to_objec :: "(string \<times> string list) list" where
  "method_to_objec =
    [(''binary'',
        [''binary'', ''logistic'', ''binary_logloss'', ''binary_cross_entropy'',
         ''binary_focal_loss'']),
     (''multiclass'',
        [''multiclass'', ''multi_logloss'', ''cross_entropy'', ''categorical_cross_entropy'',
         ''multiclass_focal_loss'']),
     (''regression'',
        [''regression'', ''mse'', ''l2'', ''mean_squared_error'', ''mean_absolute_error'',
         ''mae'', ''l1'', ''mean_squared_log_error'', ''msle'', ''root_mean_squared_error'',
         ''rmse'', ''root_mean_squared_log_error'', ''rmsle''])]"

definition objective_to_method :: "(string \<times> string) list" where
  \<comment> \<open>The dict comprehension \<^verbatim>\<open>{obj: method for method, objs in ... for obj in objs}\<close>;
      no objective occurs twice, so no entry is overwritten.\<close>
  "objective_to_method =
     concat (map (\<lambda>(method, objs). map (\<lambda>obj. (obj, method)) objs) method_to_objec)"

definition objective_keys :: "string list" where
  \<comment> \<open>\<^verbatim>\<open>objective_to_method.keys()\<close>\<close>
  "objective_keys = map fst objective_to_method"

definition loss_aliases :: "(string \<times> string list) list" where
  "loss_aliases =
    [(''binary'', [''binary'', ''logistic'', ''binary_logloss'', ''binary_cross_entropy'']),
     (''multiclass'',
        [''multiclass'', ''multi_logloss'', ''cross_entropy'', ''categorical_cross_entropy'']),
     (''regression'', [''regression'', ''mse'', ''l2'', ''mean_squared_error'']),
     (''mean_absolute_error'', [''mean_absolute_error'', ''mae'', ''l1'']),
     (''mean_squared_log_error'', [''mean_squared_log_error'', ''msle'']),
     (''root_mean_squared_error'', [''root_mean_squared_error'', ''rmse'']),
     (''root_mean_squared_log_error'', [''root_mean_squared_log_error'', ''rmsle''])]"

definition aliases :: "string \<Rightarrow> string list" where
  \<comment> \<open>\<^verbatim>\<open>loss_aliases[key]\<close>; the source only subscripts with the seven keys of the table.\<close>
  "aliases key = (case map_of loss_aliases key of Some objs \<Rightarrow> objs | None \<Rightarrow> [])"

text \<open>
  The loss objects the registry can build. The constructors of the numerical library keep
  the arguments they are given; \<open>FocalLoss\<close> keeps \<open>alpha\<close> and \<open>gamma\<close>.
\<close>

datatype loss =
    BCEWithLogitsLoss pyval
  | CrossEntropyLoss pyval
  | MSELoss
  | L1Loss
  | MSLELoss
  | RMSELoss
  | RMSLELoss
  | FocalLoss pyval pyval

definition FocalLoss_init :: "kwargs \<Rightarrow> error + loss" where
  \<comment> \<open>\<^verbatim>\<open>FocalLoss(**kwargs)\<close> with \<^verbatim>\<open>__init__(self, alpha=0.25, gamma=1.0)\<close>: a keyword
      other than \<open>alpha\<close> and \<open>gamma\<close> is a TypeError of the call.\<close>
  "FocalLoss_init kw =
     (if list_ex (\<lambda>k. k \<noteq> ''alpha'' \<and> k \<noteq> ''gamma'') (map fst kw)
      then Inl (TypeError ''__init__() got an unexpected keyword argument'')
      else Inr (FocalLoss
             (case map_of kw ''alpha'' of None \<Rightarrow> PyFloat 0.25 | Some a \<Rightarrow> a)
             (case map_of kw ''gamma'' of None \<Rightarrow> PyFloat 1.0 | Some g \<Rightarrow> g)))"

definition unsupported_message :: string where
  "unsupported_message =
     ''objective or loss function is not supported. Please consider passing a callable '' @
     ''directly to the compile method (see docs) or use one of the supported objectives '' @
     ''or loss functions: '' @ join '', '' objective_keys"

definition get_loss_function :: "string \<Rightarrow> kwargs \<Rightarrow> error + loss option" where
  \<comment> \<open>\<open>Inr None\<close> is the implicit \<^verbatim>\<open>return None\<close> at the end of the function body.\<close>
  "get_loss_function loss_fn kw =
    (if loss_fn \<notin> set objective_keys then Inl (ValueError unsupported_message)
     else if loss_fn \<in> set (aliases ''binary'') then
       (case getitem kw ''weight'' of
          Inl e \<Rightarrow> Inl e | Inr w \<Rightarrow> Inr (Some (BCEWithLogitsLoss w)))
     else if loss_fn \<in> set (aliases ''multiclass'') then
       (case getitem kw ''weight'' of
          Inl e \<Rightarrow> Inl e | Inr w \<Rightarrow> Inr (Some (CrossEntropyLoss w)))
     else if loss_fn \<in> set (aliases ''regression'') then Inr (Some MSELoss)
     else if loss_fn \<in> set (aliases ''mean_absolute_error'') then Inr (Some L1Loss)
     else if loss_fn \<in> set (aliases ''mean_squared_log_error'') then Inr (Some MSLELoss)
     else if loss_fn \<in> set (aliases ''root_mean_squared_error'') then Inr (Some RMSELoss)
     else if loss_fn \<in> set (aliases ''root_mean_squared_log_error'') then Inr (Some RMSLELoss)
     else if contains ''focal_loss'' loss_fn then
       (case FocalLoss_init kw of Inl e \<Rightarrow> Inl e | Inr l \<Rightarrow> Inr (Some l))
     else Inr None)"


text \<open>Names for the two groups of objectives that the theorems below speak about.\<close>

definition focal_names :: "string list" where
  "focal_names = [''binary_focal_loss'', ''multiclass_focal_loss'']"

definition plain_names :: "string list" where
  \<comment> \<open>the regression objectives, whose constructors take no argument\<close>
  "plain_names = aliases ''regression'' @ aliases ''mean_absolute_error'' @
     aliases ''mean_squared_log_error'' @ aliases ''root_mean_squared_error'' @
     aliases ''root_mean_squared_log_error''"

section \<open>The numerical substrate: tensors\<close>

text \<open>
  The tensor library is not part of the repository. Its operations are modelled after its
  documentation, as far as the source uses them: a tensor is one-dimensional (its elements)
  or two-dimensional (its shape and its rows). \<open>Tensor1 []\<close> is \<^verbatim>\<open>torch.FloatTensor()\<close>.
  Device placement (\<^verbatim>\<open>.to(device)\<close>, \<^verbatim>\<open>.cuda()\<close>), \<^verbatim>\<open>.contiguous()\<close> and
  \<^verbatim>\<open>.detach()\<close> do not change a tensor's values and are left out.
\<close>

datatype tensor = Tensor1 "real list" | Tensor2 nat nat "real list list"


fun shape :: "tensor \<Rightarrow> nat list" where
  "shape (Tensor1 xs) = [length xs]"
| "shape (Tensor2 n m rs) = [n, m]"

definition size_at :: "tensor \<Rightarrow> nat \<Rightarrow> error + nat" where
  \<comment> \<open>\<^verbatim>\<open>t.size(d)\<close>\<close>
  "size_at t d = (if d < length (shape t) then Inr (shape t ! d) else Inl IndexError)"

fun elements :: "tensor \<Rightarrow> real list" where
  "elements (Tensor1 xs) = xs"
| "elements (Tensor2 n m rs) = concat rs"

fun map_tensor :: "(real \<Rightarrow> real) \<Rightarrow> tensor \<Rightarrow> tensor" where
  "map_tensor f (Tensor1 xs) = Tensor1 (map f xs)"
| "map_tensor f (Tensor2 n m rs) = Tensor2 n m (map (map f) rs)"

definition then_do :: "error + 'a \<Rightarrow> ('a \<Rightarrow> error + 'b) \<Rightarrow> error + 'b" where
  \<comment> \<open>Sequencing: an exception of the first statement skips the rest.\<close>
  "then_do m f = (case m of Inl e \<Rightarrow> Inl e | Inr x \<Rightarrow> f x)"

text \<open>Broadcasting of an elementwise binary operation; a 1-D tensor acts as a single row.\<close>

fun as_matrix :: "tensor \<Rightarrow> nat \<times> nat \<times> real list list" where
  "as_matrix (Tensor1 xs) = (1, length xs, [xs])"
| "as_matrix (Tensor2 n m rs) = (n, m, rs)"

fun is_1d :: "tensor \<Rightarrow> bool" where
  "is_1d (Tensor1 xs) = True"
| "is_1d (Tensor2 n m rs) = False"

definition bcompat :: "nat \<Rightarrow> nat \<Rightarrow> bool" where
  "bcompat a b = (a = b \<or> a = 1 \<or> b = 1)"

definition bdim :: "nat \<Rightarrow> nat \<Rightarrow> nat" where
  "bdim a b = (if a = 1 then b else a)"

definition bidx :: "nat \<Rightarrow> nat \<Rightarrow> nat" where
  "bidx a i = (if a = 1 then 0 else i)"

definition broadcast2 :: "(real \<Rightarrow> real \<Rightarrow> real) \<Rightarrow> tensor \<Rightarrow> tensor \<Rightarrow> error + tensor" where
  "broadcast2 f a b =
    (case as_matrix a of (n, m, ra) \<Rightarrow>
     case as_matrix b of (n', m', rb) \<Rightarrow>
       if bcompat n n' \<and> bcompat m m' then
         let cells = map (\<lambda>i. map (\<lambda>j. f (ra ! bidx n i ! bidx m j) (rb ! bidx n' i ! bidx m' j))
                                   [0..<bdim m m']) [0..<bdim n n']
         in Inr (if is_1d a \<and> is_1d b then Tensor1 (concat cells)
                 else Tensor2 (bdim n n') (bdim m m') cells)
       else Inl RuntimeError)"

definition torch_zeros :: "nat \<Rightarrow> nat \<Rightarrow> tensor" where
  "torch_zeros n m = Tensor2 n m (replicate n (replicate m 0))"

definition add_inplace :: "tensor \<Rightarrow> tensor \<Rightarrow> error + tensor" where
  \<comment> \<open>\<^verbatim>\<open>out.add_(y)\<close>: the sum, which must have the shape of \<open>out\<close>; the new value of
      \<open>out\<close> is returned.\<close>
  "add_inplace out y =
     then_do (broadcast2 (+) out y)
       (\<lambda>r. if shape r = shape out then Inr r else Inl RuntimeError)"

fun torch_cat1 :: "tensor \<Rightarrow> tensor \<Rightarrow> error + tensor" where
  \<comment> \<open>\<^verbatim>\<open>torch.cat([a, b], axis=1)\<close>; an empty 1-D tensor is skipped.\<close>
  "torch_cat1 (Tensor1 xs) b = (if xs = [] then Inr b else Inl IndexError)"
| "torch_cat1 (Tensor2 n m ra) (Tensor1 ys) =
     (if ys = [] then Inr (Tensor2 n m ra) else Inl IndexError)"
| "torch_cat1 (Tensor2 n m ra) (Tensor2 n' m' rb) =
     (if n = n' then Inr (Tensor2 n (m + m') (map2 (@) ra rb)) else Inl RuntimeError)"

datatype scalar = Value real | NaN

definition mean :: "tensor \<Rightarrow> scalar" where
  \<comment> \<open>the reduction \<open>mean\<close>: the sum of the elements over their number, \<open>nan\<close> when there
      is no element\<close>
  "mean t =
     (if elements t = [] then NaN
      else Value (sum_list (elements t) / real (length (elements t))))"

definition torch_sqrt :: "scalar \<Rightarrow> scalar" where
  "torch_sqrt v = (case v of NaN \<Rightarrow> NaN | Value x \<Rightarrow> if x < 0 then NaN else Value (sqrt x))"

definition mse_loss :: "tensor \<Rightarrow> tensor \<Rightarrow> error + scalar" where
  \<comment> \<open>\<^verbatim>\<open>nn.MSELoss()(input, target)\<close>, reduction \<open>mean\<close>\<close>
  "mse_loss input target =
     then_do (broadcast2 (\<lambda>x y. (x - y)\<^sup>2) input target) (\<lambda>d. Inr (mean d))"

definition torch_log :: "tensor \<Rightarrow> tensor" where
  "torch_log t = map_tensor ln t"

definition add_scalar :: "tensor \<Rightarrow> real \<Rightarrow> tensor" where
  "add_scalar t c = map_tensor (\<lambda>x. x + c) t"














section \<open>losses.py: the custom losses\<close>




definition MSLELoss_forward :: "tensor \<Rightarrow> tensor \<Rightarrow> error + scalar" where
  "MSLELoss_forward input target =
     mse_loss (torch_log (add_scalar input 1)) (torch_log (add_scalar target 1))"

definition RMSELoss_forward :: "tensor \<Rightarrow> tensor \<Rightarrow> error + scalar" where
  "RMSELoss_forward input target =
     then_do (mse_loss input target) (\<lambda>m. Inr (torch_sqrt m))"

definition RMSLELoss_forward :: "tensor \<Rightarrow> tensor \<Rightarrow> error + scalar" where
  "RMSLELoss_forward input target =
     then_do (mse_loss (torch_log (add_scalar input 1)) (torch_log (add_scalar target 1)))
       (\<lambda>m. Inr (torch_sqrt m))"





section \<open>The numerical substrate: random initialisation and linear layers\<close>

text \<open>
  The library's global random generator is a stream of samples and the position of the
  next one. Constructing a layer draws its initial parameters from it.
\<close>

type_synonym rng = "(nat \<Rightarrow> real) \<times> nat"

definition draw :: "nat \<Rightarrow> rng \<Rightarrow> real list \<times> rng" where
  "draw k g = (case g of (s, p) \<Rightarrow> (map s [p..<p + k], (s, p + k)))"

datatype linear = Linear nat nat "real list list" "real list"
  \<comment> \<open>\<open>in_features\<close>, \<open>out_features\<close>, \<open>weight\<close> (one row per output), \<open>bias\<close>\<close>

definition nn_Linear :: "nat \<Rightarrow> nat \<Rightarrow> rng \<Rightarrow> linear \<times> rng" where
  \<comment> \<open>\<^verbatim>\<open>nn.Linear(i, out)\<close>: a layer with freshly sampled weight and bias.\<close>
  "nn_Linear i out g =
     (case draw (out * i) g of (ws, g1) \<Rightarrow>
      case draw out g1 of (bs, g2) \<Rightarrow>
        (Linear i out (map (\<lambda>k. take i (drop (k * i) ws)) [0..<out]) bs, g2))"

definition dot :: "real list \<Rightarrow> real list \<Rightarrow> real" where
  "dot xs ys = sum_list (map2 (*) xs ys)"

definition linear_row :: "real list list \<Rightarrow> real list \<Rightarrow> real list \<Rightarrow> real list" where
  "linear_row w b x = map2 (\<lambda>wk bk. dot wk x + bk) w b"

fun linear_forward :: "linear \<Rightarrow> tensor \<Rightarrow> error + tensor" where
  \<comment> \<open>\<open>y = x W\<^sup>T + b\<close>; the last dimension of the input must be \<open>in_features\<close>.\<close>
  "linear_forward (Linear i out w b) (Tensor1 xs) =
     (if length xs = i then Inr (Tensor1 (linear_row w b xs)) else Inl RuntimeError)"
| "linear_forward (Linear i out w b) (Tensor2 n m rs) =
     (if m = i then Inr (Tensor2 n out (map (linear_row w b) rs)) else Inl RuntimeError)"

section \<open>wide_deep.py: the model components\<close>

text \<open>
  A component is any module object: \<open>WideDeep\<close> calls it, reads its attribute
  \<open>output_dim\<close> (when it has one), the shape of \<^verbatim>\<open>wide_linear.weight\<close> (when it has
  one), the shapes of its parameters in order, and its truth value (a module is true
  unless it is a container of length 0). A call returns a new tensor or raises.
\<close>

record module =
  forward :: "tensor \<Rightarrow> error + tensor"
  output_dim :: "nat option"
  wide_linear_weight :: "nat list option"
  parameters :: "nat list list"
  truthy :: bool

definition shape_size :: "nat list \<Rightarrow> nat \<Rightarrow> error + nat" where
  \<comment> \<open>\<^verbatim>\<open>.size(d)\<close> of a tensor of the given shape\<close>
  "shape_size sh d = (if d < length sh then Inr (sh ! d) else Inl IndexError)"

definition get_output_dim :: "module \<Rightarrow> error + nat" where
  \<comment> \<open>\<^verbatim>\<open>m.output_dim\<close>\<close>
  "get_output_dim m =
     (case output_dim m of
        None \<Rightarrow> Inl (AttributeError ''object has no attribute 'output_dim' '')
      | Some d \<Rightarrow> Inr d)"

definition add_output_dim :: "module option \<Rightarrow> nat \<Rightarrow> error + nat" where
  \<comment> \<open>\<^verbatim>\<open>if m is not None: acc += m.output_dim\<close>\<close>
  "add_output_dim m acc =
     (case m of None \<Rightarrow> Inr acc
      | Some b \<Rightarrow> then_do (get_output_dim b) (\<lambda>d. Inr (acc + d)))"

definition is_true :: "module option \<Rightarrow> bool" where
  \<comment> \<open>the truth value of an optional module: \<^verbatim>\<open>None\<close> is false\<close>
  "is_true m = (case m of None \<Rightarrow> False | Some b \<Rightarrow> truthy b)"

definition nn_Sequential :: "module \<Rightarrow> linear \<Rightarrow> module" where
  \<comment> \<open>\<^verbatim>\<open>nn.Sequential(m, lin)\<close>: the two in sequence; a container of length 2 with no
      attribute of its own.\<close>
  "nn_Sequential m lin =
     (case lin of Linear i out w b \<Rightarrow>
       \<lparr> forward = (\<lambda>x. then_do (forward m x) (linear_forward lin)),
         output_dim = None,
         wide_linear_weight = None,
         parameters = parameters m @ [[out, i], [out]],
         truthy = True \<rparr>)"

definition add_module :: "module \<Rightarrow> linear \<Rightarrow> module" where
  \<comment> \<open>Modelled from the spec: the class \<open>MLP\<close> is not among the source files. The spec
      builds the head as a stack of layers and appends the final linear projection, so
      \<^verbatim>\<open>deephead.add_module("head_out", lin)\<close> makes \<open>lin\<close> the last layer the head
      applies.\<close>
  "add_module m lin =
     (case lin of Linear i out w b \<Rightarrow>
       m \<lparr> forward := (\<lambda>x. then_do (forward m x) (linear_forward lin)),
           parameters := parameters m @ [[out, i], [out]] \<rparr>)"

record head_args =
  head_activation :: string
  head_dropout :: pyval
  head_batchnorm :: bool
  head_batchnorm_last :: bool
  head_linear_first :: bool

text \<open>
  The constructor \<open>MLP\<close> is a parameter of the model: it builds the stack of dense layers
  of the given widths, drawing its parameters from the generator.
\<close>

type_synonym mlp_builder = "nat list \<Rightarrow> head_args \<Rightarrow> rng \<Rightarrow> module \<times> rng"

section \<open>wide_deep.py: WideDeep\<close>

text \<open>\<open>pred_dim\<close> is a size, hence a natural number.\<close>

record WideDeep =
  pred_dim :: nat
  wide :: "module option"
  deeptabular :: "module option"
  deeptext :: "module option"
  deepimage :: "module option"
  deephead :: "module option"

definition wide_width :: "module \<Rightarrow> error + nat" where
  \<comment> \<open>\<^verbatim>\<open>wide.wide_linear.weight.size(1)\<close>\<close>
  "wide_width w =
     (case wide_linear_weight w of
        None \<Rightarrow> Inl (AttributeError ''object has no attribute 'wide_linear' '')
      | Some sh \<Rightarrow> shape_size sh 1)"

definition first_param_width :: "module \<Rightarrow> error + nat" where
  \<comment> \<open>\<^verbatim>\<open>next(deephead.parameters()).size(1)\<close>\<close>
  "first_param_width h =
     (case parameters h of [] \<Rightarrow> Inl StopIteration | sh # _ \<Rightarrow> shape_size sh 1)"

definition deep_output_dim ::
  "module option \<Rightarrow> module option \<Rightarrow> module option \<Rightarrow> error + nat" where
  \<comment> \<open>the sum of \<open>output_dim\<close> over the deep components that are not \<^verbatim>\<open>None\<close>, added in
      the order tabular, text, image\<close>
  "deep_output_dim tab txt img =
     then_do (add_output_dim tab 0) (\<lambda>d1.
     then_do (add_output_dim txt d1) (\<lambda>d2.
       add_output_dim img d2))"

definition wide_check :: "module option \<Rightarrow> nat \<Rightarrow> error + unit" where
  \<comment> \<open>\<^verbatim>\<open>if wide is not None: assert wide.wide_linear.weight.size(1) == pred_dim\<close>\<close>
  "wide_check wide' pred_dim' =
     (case wide' of None \<Rightarrow> Inr ()
      | Some w \<Rightarrow>
          then_do (wide_width w)
            (\<lambda>width. if width = pred_dim' then Inr () else Inl AssertionError))"

definition deephead_check ::
  "module option \<Rightarrow> module option \<Rightarrow> module option \<Rightarrow> module option \<Rightarrow> error + unit" where
  \<comment> \<open>\<^verbatim>\<open>if deephead is not None: ... assert deephead_inp_feat == output_dim\<close>\<close>
  "deephead_check deephead' deeptabular' deeptext' deepimage' =
     (case deephead' of None \<Rightarrow> Inr ()
      | Some h \<Rightarrow>
          then_do (first_param_width h) (\<lambda>deephead_inp_feat.
          then_do (deep_output_dim deeptabular' deeptext' deepimage') (\<lambda>out_dim.
            if deephead_inp_feat = out_dim then Inr () else Inl AssertionError)))"

definition check_model_components ::
  "module option \<Rightarrow> module option \<Rightarrow> module option \<Rightarrow> module option \<Rightarrow> module option \<Rightarrow>
     nat list option \<Rightarrow> nat \<Rightarrow> error + unit" where
  \<comment> \<open>\<^verbatim>\<open>WideDeep._check_model_components\<close>: its checks in the order of the source\<close>
  "check_model_components wide' deeptabular' deeptext' deepimage' deephead' head_layers_dim
       pred_dim' =
     then_do (wide_check wide' pred_dim') (\<lambda>_.
     if deeptabular' \<noteq> None \<and> output_dim (the deeptabular') = None then
       Inl (AttributeError (''deeptabular model must have an 'output_dim' attribute. '' @
                            ''See pytorch-widedeep.models.deep_dense.DeepText''))
     else if deeptext' \<noteq> None \<and> output_dim (the deeptext') = None then
       Inl (AttributeError (''deeptext model must have an 'output_dim' attribute. '' @
                            ''See pytorch-widedeep.models.deep_dense.DeepText''))
     else if deepimage' \<noteq> None \<and> output_dim (the deepimage') = None then
       Inl (AttributeError (''deepimage model must have an 'output_dim' attribute. '' @
                            ''See pytorch-widedeep.models.deep_dense.DeepText''))
     else if deephead' \<noteq> None \<and> head_layers_dim \<noteq> None then
       Inl (ValueError (''both 'deephead' and 'head_layers_dim' are not None. '' @
                        ''Use one of the other, but not both''))
     else if head_layers_dim \<noteq> None \<and> \<not> is_true deeptabular' \<and> \<not> is_true deeptext'
               \<and> \<not> is_true deepimage' then
       Inl (ValueError
         ''if 'head_layers_dim' is not None, at least one deep component must be used'')
     else deephead_check deephead' deeptabular' deeptext' deepimage')"

definition add_pred_layer :: "module option \<Rightarrow> nat \<Rightarrow> rng \<Rightarrow> error + module option \<times> rng" where
  \<comment> \<open>\<^verbatim>\<open>if m is not None: m = nn.Sequential(m, nn.Linear(m.output_dim, pred_dim))\<close>\<close>
  "add_pred_layer m pred_dim' g =
     (case m of None \<Rightarrow> Inr (None, g)
      | Some b \<Rightarrow>
          then_do (get_output_dim b) (\<lambda>d.
            case nn_Linear d pred_dim' g of (lin, g') \<Rightarrow> Inr (Some (nn_Sequential b lin), g')))"

definition WideDeep_init ::
  "mlp_builder \<Rightarrow> module option \<Rightarrow> module option \<Rightarrow> module option \<Rightarrow> module option \<Rightarrow>
     module option \<Rightarrow> nat list option \<Rightarrow> head_args \<Rightarrow> nat \<Rightarrow> rng \<Rightarrow> error + WideDeep \<times> rng" where
  \<comment> \<open>\<^verbatim>\<open>WideDeep.__init__\<close>; the new object and the generator after the draws\<close>
  "WideDeep_init MLP wide' deeptabular' deeptext' deepimage' deephead' head_layers_dim args
       pred_dim' g =
     then_do (check_model_components wide' deeptabular' deeptext' deepimage' deephead'
                head_layers_dim pred_dim') (\<lambda>_.
       let self = \<lparr> pred_dim = pred_dim', wide = wide', deeptabular = deeptabular',
                    deeptext = deeptext', deepimage = deepimage', deephead = deephead' \<rparr>
       in if deephead self = None then
            (case head_layers_dim of
               Some dims \<Rightarrow>
                 then_do (deep_output_dim (deeptabular self) (deeptext self) (deepimage self))
                   (\<lambda>deep_dim.
                   let head_layers_dim' = [deep_dim] @ dims in
                   case MLP head_layers_dim' args g of (mlp, g1) \<Rightarrow>
                   case nn_Linear (last head_layers_dim') pred_dim' g1 of (lin, g2) \<Rightarrow>
                     Inr (self \<lparr> deephead := Some (add_module mlp lin) \<rparr>, g2))
             | None \<Rightarrow>
                 then_do (add_pred_layer (deeptabular self) pred_dim' g) (\<lambda>(tab, g1).
                 then_do (add_pred_layer (deeptext self) pred_dim' g1) (\<lambda>(txt, g2).
                 then_do (add_pred_layer (deepimage self) pred_dim' g2) (\<lambda>(img, g3).
                   Inr (self \<lparr> deeptabular := tab, deeptext := txt, deepimage := img \<rparr>, g3)))))
          else Inr (self, g))"

text \<open>The batch \<open>X\<close> is a dict from branch names to tensors, in insertion order.\<close>

type_synonym batch = "(string \<times> tensor) list"

definition call_on :: "module \<Rightarrow> batch \<Rightarrow> string \<Rightarrow> error + tensor" where
  \<comment> \<open>\<^verbatim>\<open>m(X[key])\<close>\<close>
  "call_on m X key = then_do (getitem X key) (forward m)"

definition first_batch_size :: "batch \<Rightarrow> error + nat" where
  \<comment> \<open>\<^verbatim>\<open>X[list(X.keys())[0]].size(0)\<close>\<close>
  "first_batch_size X =
     (case X of [] \<Rightarrow> Inl IndexError
      | (k, _) # _ \<Rightarrow> then_do (getitem X k) (\<lambda>t. size_at t 0))"

definition add_branch :: "module option \<Rightarrow> batch \<Rightarrow> string \<Rightarrow> tensor \<Rightarrow> error + tensor" where
  \<comment> \<open>\<^verbatim>\<open>if m is not None: out.add_(m(X[key]))\<close>\<close>
  "add_branch m X key out =
     (case m of None \<Rightarrow> Inr out
      | Some b \<Rightarrow> then_do (call_on b X key) (add_inplace out))"

definition cat_branch :: "module option \<Rightarrow> batch \<Rightarrow> string \<Rightarrow> tensor \<Rightarrow> error + tensor" where
  \<comment> \<open>\<^verbatim>\<open>if m is not None: deepside = torch.cat([deepside, m(X[key])], axis=1)\<close>\<close>
  "cat_branch m X key deepside =
     (case m of None \<Rightarrow> Inr deepside
      | Some b \<Rightarrow> then_do (call_on b X key) (torch_cat1 deepside))"

definition WideDeep_forward :: "WideDeep \<Rightarrow> batch \<Rightarrow> rng \<Rightarrow> error + tensor \<times> rng" where
  \<comment> \<open>\<^verbatim>\<open>WideDeep.forward\<close>; the prediction and the generator after the call\<close>
  "WideDeep_forward self X g =
     then_do (case wide self of
                Some w \<Rightarrow> call_on w X ''wide''
              | None \<Rightarrow> then_do (first_batch_size X)
                          (\<lambda>batch_size. Inr (torch_zeros batch_size (pred_dim self)))) (\<lambda>out.
     if is_true (deephead self) then
       then_do (case deeptabular self of
                  Some b \<Rightarrow> call_on b X ''deeptabular''
                | None \<Rightarrow> Inr (Tensor1 [])) (\<lambda>deepside.
       then_do (cat_branch (deeptext self) X ''deeptext'' deepside) (\<lambda>deepside.
       then_do (cat_branch (deepimage self) X ''deepimage'' deepside) (\<lambda>deepside.
       then_do (forward (the (deephead self)) deepside) (\<lambda>deephead_out.
       then_do (size_at deephead_out 1) (\<lambda>width.
         case nn_Linear width (pred_dim self) g of (deepside_linear, g') \<Rightarrow>
           then_do (linear_forward deepside_linear deephead_out) (\<lambda>y.
           then_do (add_inplace out y) (\<lambda>out. Inr (out, g'))))))))
     else
       then_do (add_branch (deeptabular self) X ''deeptabular'' out) (\<lambda>out.
       then_do (add_branch (deeptext self) X ''deeptext'' out) (\<lambda>out.
       then_do (add_branch (deepimage self) X ''deepimage'' out) (\<lambda>out.
         Inr (out, g)))))"

text \<open>
  What claim C8 says of the two losses, with the comparisons of floating-point numbers:
  no comparison with \<open>nan\<close> holds.
\<close>

definition is_nonneg :: "scalar \<Rightarrow> bool" where
  "is_nonneg v = (case v of NaN \<Rightarrow> False | Value x \<Rightarrow> 0 \<le> x)"

definition square_is :: "scalar \<Rightarrow> scalar \<Rightarrow> bool" where
  \<comment> \<open>\<open>r\<close> squared equals \<open>m\<close>\<close>
  "square_is r m =
     (case r of NaN \<Rightarrow> False
      | Value a \<Rightarrow> (case m of NaN \<Rightarrow> False | Value b \<Rightarrow> a\<^sup>2 = b))"

section \<open>Example components\<close>

text \<open>
  Concrete components on which the theorems below are evaluated: a generator whose
  \<open>k\<close>-th sample is \<open>k + 1\<close>, a branch that returns its input and advertises the width
  \<open>d\<close>, a branch that returns one fixed row whatever the batch, a wide component of
  output width 1, and a head builder whose stack is the identity.
\<close>

definition example_rng :: rng where
  "example_rng = (\<lambda>k. real k + 1, 0)"

definition identity_module :: "nat \<Rightarrow> module" where
  "identity_module d =
     \<lparr> forward = Inr, output_dim = Some d, wide_linear_weight = None,
       parameters = [[d, d]], truthy = True \<rparr>"


definition example_wide :: module where
  "example_wide =
     \<lparr> forward = Inr, output_dim = None, wide_linear_weight = Some [5, 1],
       parameters = [[5, 1], [1]], truthy = True \<rparr>"

definition example_MLP :: mlp_builder where
  "example_MLP dims args g = (identity_module (last dims), g)"

definition example_args :: head_args where
  "example_args =
     \<lparr> head_activation = ''relu'', head_dropout = PyNone, head_batchnorm = False,
       head_batchnorm_last = False, head_linear_first = False \<rparr>"

definition example_batch :: batch where
  "example_batch = [(''deeptabular'', Tensor2 1 1 [[1]])]"

definition example_head_model :: WideDeep where
  "example_head_model =
     \<lparr> pred_dim = 1, wide = None, deeptabular = Some (identity_module 1), deeptext = None,
       deepimage = None, deephead = Some (identity_module 1) \<rparr>"

definition example_declarative_head :: module where
  "example_declarative_head = add_module (identity_module 1) (Linear 1 1 [[1]] [2])"

definition example_declarative_model :: WideDeep where
  "example_declarative_model =
     \<lparr> pred_dim = 1, wide = None, deeptabular = Some (identity_module 1), deeptext = None,
       deepimage = None, deephead = Some example_declarative_head \<rparr>"


definition example_batch2 :: batch where
  "example_batch2 = [(''deeptabular'', Tensor2 2 1 [[5], [6]])]"


section \<open>Properties of the loss registry\<close>

lemma objective_keys_eq:
  "objective_keys =
     [''binary'', ''logistic'', ''binary_logloss'', ''binary_cross_entropy'',
      ''binary_focal_loss'', ''multiclass'', ''multi_logloss'', ''cross_entropy'',
      ''categorical_cross_entropy'', ''multiclass_focal_loss'', ''regression'', ''mse'',
      ''l2'', ''mean_squared_error'', ''mean_absolute_error'', ''mae'', ''l1'',
      ''mean_squared_log_error'', ''msle'', ''root_mean_squared_error'', ''rmse'',
      ''root_mean_squared_log_error'', ''rmsle'']"
  by (simp add: objective_keys_def objective_to_method_def method_to_objec_def)

lemma aliases_eqs:
  "aliases ''binary'' = [''binary'', ''logistic'', ''binary_logloss'', ''binary_cross_entropy'']"
  "aliases ''multiclass'' =
     [''multiclass'', ''multi_logloss'', ''cross_entropy'', ''categorical_cross_entropy'']"
  "aliases ''regression'' = [''regression'', ''mse'', ''l2'', ''mean_squared_error'']"
  "aliases ''mean_absolute_error'' = [''mean_absolute_error'', ''mae'', ''l1'']"
  "aliases ''mean_squared_log_error'' = [''mean_squared_log_error'', ''msle'']"
  "aliases ''root_mean_squared_error'' = [''root_mean_squared_error'', ''rmse'']"
  "aliases ''root_mean_squared_log_error'' = [''root_mean_squared_log_error'', ''rmsle'']"
  by (simp_all add: aliases_def loss_aliases_def)

lemma glf_binary_all:
  "\<forall>name\<in>set (aliases ''binary''). get_loss_function name kw =
     (case getitem kw ''weight'' of
        Inl e \<Rightarrow> Inl e | Inr w \<Rightarrow> Inr (Some (BCEWithLogitsLoss w)))"
  by (simp add: aliases_eqs get_loss_function_def objective_keys_eq)

lemma glf_multiclass_all:
  "\<forall>name\<in>set (aliases ''multiclass''). get_loss_function name kw =
     (case getitem kw ''weight'' of
        Inl e \<Rightarrow> Inl e | Inr w \<Rightarrow> Inr (Some (CrossEntropyLoss w)))"
  by (simp add: aliases_eqs get_loss_function_def objective_keys_eq)

lemma glf_plain_all:
  "\<forall>name\<in>set plain_names. get_loss_function name kw \<in>
       {Inr (Some MSELoss), Inr (Some L1Loss), Inr (Some MSLELoss), Inr (Some RMSELoss), Inr (Some RMSLELoss)}"
  by (simp add: plain_names_def aliases_eqs get_loss_function_def objective_keys_eq)

lemma glf_focal_all:
  "\<forall>name\<in>set focal_names. get_loss_function name kw =
     (case FocalLoss_init kw of Inl e \<Rightarrow> Inl e | Inr l \<Rightarrow> Inr (Some l))"
  by (simp add: focal_names_def aliases_eqs get_loss_function_def objective_keys_eq)

lemma objective_keys_split:
  "set objective_keys =
     set (aliases ''binary'') \<union> set (aliases ''multiclass'') \<union> set plain_names \<union> set focal_names"
  unfolding objective_keys_eq aliases_eqs plain_names_def focal_names_def by (simp add: insert_commute)

lemma glf_unknown:
  "name \<notin> set objective_keys \<Longrightarrow> get_loss_function name kw = Inl (ValueError unsupported_message)"
  by (simp add: get_loss_function_def)

lemma focal_not_alias:
  "\<forall>name\<in>set focal_names. \<forall>key. name \<notin> set (aliases key)"
  by (auto simp add: focal_names_def aliases_def loss_aliases_def)

lemma focal_contains: "\<forall>name\<in>set focal_names. contains ''focal_loss'' name"
  by (simp add: focal_names_def)

lemma FocalLoss_init_ok:
  "set (map fst kw) \<subseteq> {''alpha'', ''gamma''} \<Longrightarrow> \<exists>a g. FocalLoss_init kw = Inr (FocalLoss a g)"
  by (auto simp add: FocalLoss_init_def list_ex_iff)


text \<open>
  Claim C3, as stated, fails: \<open>binary\<close> and \<open>multiclass\<close> are in the vocabulary, and
  without a \<open>weight\<close> keyword the call raises KeyError instead of returning the
  unweighted loss.
\<close>

theorem get_loss_function_weight_absent:
  "''binary'' \<in> set objective_keys \<and>
   get_loss_function ''binary'' [] = Inl (KeyError ''weight'') \<and>
   get_loss_function ''multiclass'' [(''alpha'', PyFloat 0.25)] = Inl (KeyError ''weight'')"
  by (simp add: get_loss_function_def objective_keys_eq aliases_eqs getitem_def)

text \<open>
  Claim C3, amended: a name outside the vocabulary raises the ValueError that lists the
  supported names. A binary or multiclass alias returns the weighted loss built from the
  \<open>weight\<close> keyword, which must be passed and may be \<open>None\<close>; a regression alias
  returns its loss whatever the keywords; a focal name returns a focal loss when the
  keywords are among \<open>alpha\<close> and \<open>gamma\<close>. These four groups are the whole vocabulary.
\<close>

theorem get_loss_function_resolves:
  "(name \<notin> set objective_keys \<longrightarrow>
      get_loss_function name kw = Inl (ValueError unsupported_message)) \<and>
   (name \<in> set (aliases ''binary'') \<longrightarrow> map_of kw ''weight'' = Some w \<longrightarrow>
      get_loss_function name kw = Inr (Some (BCEWithLogitsLoss w))) \<and>
   (name \<in> set (aliases ''multiclass'') \<longrightarrow> map_of kw ''weight'' = Some w \<longrightarrow>
      get_loss_function name kw = Inr (Some (CrossEntropyLoss w))) \<and>
   (name \<in> set plain_names \<longrightarrow> (\<exists>l. get_loss_function name kw = Inr (Some l))) \<and>
   (name \<in> set focal_names \<longrightarrow> set (map fst kw) \<subseteq> {''alpha'', ''gamma''} \<longrightarrow>
      (\<exists>a g. get_loss_function name kw = Inr (Some (FocalLoss a g)))) \<and>
   set objective_keys =
     set (aliases ''binary'') \<union> set (aliases ''multiclass'') \<union> set plain_names \<union>
     set focal_names"
proof (intro conjI impI)
  assume "name \<notin> set objective_keys"
  then show "get_loss_function name kw = Inl (ValueError unsupported_message)"
    by (rule glf_unknown)
next
  assume "name \<in> set (aliases ''binary'')" and "map_of kw ''weight'' = Some w"
  then show "get_loss_function name kw = Inr (Some (BCEWithLogitsLoss w))"
    using glf_binary_all [of kw] by (simp add: getitem_def)
next
  assume "name \<in> set (aliases ''multiclass'')" and "map_of kw ''weight'' = Some w"
  then show "get_loss_function name kw = Inr (Some (CrossEntropyLoss w))"
    using glf_multiclass_all [of kw] by (simp add: getitem_def)
next
  assume "name \<in> set plain_names"
  then have "get_loss_function name kw \<in>
       {Inr (Some MSELoss), Inr (Some L1Loss), Inr (Some MSLELoss), Inr (Some RMSELoss),
        Inr (Some RMSLELoss)}"
    using glf_plain_all [of kw] by blast
  then show "\<exists>l. get_loss_function name kw = Inr (Some l)" by blast
next
  assume "name \<in> set focal_names" and "set (map fst kw) \<subseteq> {''alpha'', ''gamma''}"
  then show "\<exists>a g. get_loss_function name kw = Inr (Some (FocalLoss a g))"
    using glf_focal_all [of kw] FocalLoss_init_ok [of kw] by fastforce
next
  show "set objective_keys =
     set (aliases ''binary'') \<union> set (aliases ''multiclass'') \<union> set plain_names \<union>
     set focal_names"
    by (rule objective_keys_split)
qed

text \<open>The amended claim C3 at one name of each group.\<close>

theorem get_loss_function_resolves_witness:
  "get_loss_function ''not_a_loss'' [] = Inl (ValueError unsupported_message) \<and>
   get_loss_function ''logistic'' [(''weight'', PyNone)] = Inr (Some (BCEWithLogitsLoss PyNone)) \<and>
   get_loss_function ''cross_entropy'' [(''weight'', PyTensor [1, 2])] =
     Inr (Some (CrossEntropyLoss (PyTensor [1, 2]))) \<and>
   (\<exists>l. get_loss_function ''rmse'' [] = Inr (Some l)) \<and>
   (\<exists>a g. get_loss_function ''multiclass_focal_loss'' [(''gamma'', PyFloat 2)] =
      Inr (Some (FocalLoss a g)))"
  using get_loss_function_resolves [of "''not_a_loss''" "[]"]
    get_loss_function_resolves [of "''logistic''" "[(''weight'', PyNone)]" PyNone]
    get_loss_function_resolves [of "''cross_entropy''" "[(''weight'', PyTensor [1, 2])]" "PyTensor [1, 2]"]
    get_loss_function_resolves [of "''rmse''" "[]"]
    get_loss_function_resolves [of "''multiclass_focal_loss''" "[(''gamma'', PyFloat 2)]"]
  by (simp add: objective_keys_eq aliases_eqs plain_names_def focal_names_def)

text \<open>
  Claim C9: for a name of the vocabulary \<open>get_loss_function\<close> never reaches the implicit
  \<open>return None\<close>: it returns a loss object, unless the constructor call it has reached
  raises (KeyError for the missing \<open>weight\<close>, TypeError for a keyword \<open>FocalLoss\<close>
  does not take). The two focal names are in no list of \<open>loss_aliases\<close>, contain
  \<open>focal_loss\<close>, and resolve to \<open>FocalLoss(**kwargs)\<close>, which without keywords is
  the focal loss with \<open>alpha = 0.25\<close> and \<open>gamma = 1.0\<close>.
\<close>

theorem get_loss_function_total:
  assumes "name \<in> set objective_keys"
  shows "get_loss_function name kw \<noteq> Inr None \<and>
         ((\<exists>l. get_loss_function name kw = Inr (Some l)) \<or>
          get_loss_function name kw = Inl (KeyError ''weight'') \<or>
          get_loss_function name kw =
            Inl (TypeError ''__init__() got an unexpected keyword argument'')) \<and>
         (name \<in> set focal_names \<longrightarrow>
            (\<forall>key. name \<notin> set (aliases key)) \<and>
            contains ''focal_loss'' name \<and>
            get_loss_function name kw =
              (case FocalLoss_init kw of Inl e \<Rightarrow> Inl e | Inr l \<Rightarrow> Inr (Some l)) \<and>
            get_loss_function name [] = Inr (Some (FocalLoss (PyFloat 0.25) (PyFloat 1.0))))"
proof -
  have reach: "(\<exists>l. get_loss_function name kw = Inr (Some l)) \<or>
          get_loss_function name kw = Inl (KeyError ''weight'') \<or>
          get_loss_function name kw =
            Inl (TypeError ''__init__() got an unexpected keyword argument'')"
  proof -
    from assms consider
        (b) "name \<in> set (aliases ''binary'')"
      | (m) "name \<in> set (aliases ''multiclass'')"
      | (p) "name \<in> set plain_names"
      | (f) "name \<in> set focal_names"
      unfolding objective_keys_split by blast
    then show ?thesis
    proof cases
      case b
      then show ?thesis using glf_binary_all [of kw]
        by (auto simp add: getitem_def split: option.splits)
    next
      case m
      then show ?thesis using glf_multiclass_all [of kw]
        by (auto simp add: getitem_def split: option.splits)
    next
      case p
      then have "get_loss_function name kw \<in>
         {Inr (Some MSELoss), Inr (Some L1Loss), Inr (Some MSLELoss), Inr (Some RMSELoss),
          Inr (Some RMSLELoss)}"
        using glf_plain_all [of kw] by blast
      then show ?thesis by blast
    next
      case f
      then have "get_loss_function name kw =
          (case FocalLoss_init kw of Inl e \<Rightarrow> Inl e | Inr l \<Rightarrow> Inr (Some l))"
        using glf_focal_all [of kw] by blast
      then show ?thesis by (auto simp add: FocalLoss_init_def)
    qed
  qed
  then have "get_loss_function name kw \<noteq> Inr None" by auto
  moreover have "name \<in> set focal_names \<longrightarrow>
            (\<forall>key. name \<notin> set (aliases key)) \<and>
            contains ''focal_loss'' name \<and>
            get_loss_function name kw =
              (case FocalLoss_init kw of Inl e \<Rightarrow> Inl e | Inr l \<Rightarrow> Inr (Some l)) \<and>
            get_loss_function name [] = Inr (Some (FocalLoss (PyFloat 0.25) (PyFloat 1.0)))"
  proof
    assume f: "name \<in> set focal_names"
    have "get_loss_function name [] =
          (case FocalLoss_init [] of Inl e \<Rightarrow> Inl e | Inr l \<Rightarrow> Inr (Some l))"
      using f glf_focal_all [of "[]"] by blast
    then have "get_loss_function name [] = Inr (Some (FocalLoss (PyFloat 0.25) (PyFloat 1.0)))"
      by (simp add: FocalLoss_init_def)
    then show "(\<forall>key. name \<notin> set (aliases key)) \<and>
            contains ''focal_loss'' name \<and>
            get_loss_function name kw =
              (case FocalLoss_init kw of Inl e \<Rightarrow> Inl e | Inr l \<Rightarrow> Inr (Some l)) \<and>
            get_loss_function name [] = Inr (Some (FocalLoss (PyFloat 0.25) (PyFloat 1.0)))"
      using f focal_not_alias focal_contains glf_focal_all [of kw] by blast
  qed
  ultimately show ?thesis using reach by blast
qed

text \<open>Claim C9 at the two focal names and at a regression alias.\<close>

theorem get_loss_function_total_witness:
  "get_loss_function ''binary_focal_loss'' [] \<noteq> Inr None \<and>
   get_loss_function ''binary_focal_loss'' [] = Inr (Some (FocalLoss (PyFloat 0.25) (PyFloat 1.0))) \<and>
   get_loss_function ''multiclass_focal_loss'' [] = Inr (Some (FocalLoss (PyFloat 0.25) (PyFloat 1.0))) \<and>
   get_loss_function ''mae'' [(''weight'', PyNone)] \<noteq> Inr None"
  using get_loss_function_total [of "''binary_focal_loss''" "[]"]
    get_loss_function_total [of "''multiclass_focal_loss''" "[]"]
    get_loss_function_total [of "''mae''" "[(''weight'', PyNone)]"]
  by (simp add: objective_keys_eq focal_names_def FocalLoss_init_def)

section \<open>Properties of the custom losses\<close>

lemma then_do_Inl [simp]: "then_do (Inl e) f = Inl e"
  by (simp add: then_do_def)

lemma then_do_Inr [simp]: "then_do (Inr x) f = f x"
  by (simp add: then_do_def)

lemma bidx_lt: "i < a \<Longrightarrow> bidx a i = i"
  by (simp add: bidx_def)

lemma bdim_same: "bdim a a = a"
  by (simp add: bdim_def)

lemma map2_nth_upt:
  assumes "length xs = m" and "length ys = m"
  shows "map (\<lambda>j. f (xs ! bidx m j) (ys ! bidx m j)) [0..<m] = map2 f xs ys"
  using assms by (auto simp add: list_eq_iff_nth_eq bidx_lt)

lemma broadcast2_same_shape:
  assumes "length ra = n" and "length rb = n"
    and "\<forall>r\<in>set ra. length r = m" and "\<forall>r\<in>set rb. length r = m"
  shows "broadcast2 f (Tensor2 n m ra) (Tensor2 n m rb) =
           Inr (Tensor2 n m (map2 (map2 f) ra rb))"
proof -
  have "map (\<lambda>i. map (\<lambda>j. f (ra ! bidx n i ! bidx m j) (rb ! bidx n i ! bidx m j)) [0..<m])
          [0..<n] = map2 (map2 f) ra rb"
  proof (rule nth_equalityI)
    show "length (map (\<lambda>i. map (\<lambda>j. f (ra ! bidx n i ! bidx m j) (rb ! bidx n i ! bidx m j))
            [0..<m]) [0..<n]) = length (map2 (map2 f) ra rb)"
      using assms by simp
  next
    fix i
    assume "i < length (map (\<lambda>i. map (\<lambda>j. f (ra ! bidx n i ! bidx m j)
               (rb ! bidx n i ! bidx m j)) [0..<m]) [0..<n])"
    then have i: "i < n" by simp
    then have "length (ra ! i) = m" and "length (rb ! i) = m"
      using assms by auto
    then have "map (\<lambda>j. f (ra ! i ! bidx m j) (rb ! i ! bidx m j)) [0..<m] =
               map2 f (ra ! i) (rb ! i)"
      by (rule map2_nth_upt)
    then show "map (\<lambda>i. map (\<lambda>j. f (ra ! bidx n i ! bidx m j) (rb ! bidx n i ! bidx m j))
            [0..<m]) [0..<n] ! i = map2 (map2 f) ra rb ! i"
      using i assms by (simp add: bidx_lt)
  qed
  then show ?thesis
    by (simp add: broadcast2_def bcompat_def bdim_same)
qed

lemma broadcast2_elements:
  assumes "broadcast2 f a b = Inr d" and "\<And>x y. P (f x y)"
  shows "\<forall>z\<in>set (elements d). P z"
  using assms
  by (auto simp add: broadcast2_def Let_def split: prod.splits if_splits)

lemma mse_loss_cases:
  "mse_loss input target =
     (case broadcast2 (\<lambda>x y. (x - y)\<^sup>2) input target of
        Inl e \<Rightarrow> Inl e | Inr d \<Rightarrow> Inr (mean d))"
  by (simp add: mse_loss_def then_do_def)

lemma mse_loss_nonneg:
  assumes "mse_loss input target = Inr (Value m)"
  shows "0 \<le> m"
proof -
  from assms obtain d where d: "broadcast2 (\<lambda>x y. (x - y)\<^sup>2) input target = Inr d"
    and m: "mean d = Value m"
    by (auto simp add: mse_loss_cases split: sum.splits)
  have "\<forall>z\<in>set (elements d). 0 \<le> z"
    using d by (rule broadcast2_elements) simp
  then have "0 \<le> sum_list (elements d)"
    by (simp add: sum_list_nonneg)
  then show ?thesis
    using m by (auto simp add: mean_def split: if_splits)
qed

lemma mse_loss_number:
  assumes "broadcast2 (\<lambda>x y. (x - y)\<^sup>2) input target = Inr d" and "elements d \<noteq> []"
  shows "\<exists>m. mse_loss input target = Inr (Value m)"
  using assms by (simp add: mse_loss_cases mean_def)

lemma mse_loss_nan:
  assumes "mse_loss input target = Inr NaN"
  shows "\<exists>d. broadcast2 (\<lambda>x y. (x - y)\<^sup>2) input target = Inr d \<and> elements d = []"
  using assms by (auto simp add: mse_loss_cases mean_def split: sum.splits if_splits)

text \<open>
  Claim C8, as stated, fails on tensors without elements: there the mean squared error
  and the RMSE loss are both \<open>nan\<close>, which is not non-negative and whose square is not
  equal to anything.
\<close>

theorem RMSELoss_forward_empty:
  "mse_loss (Tensor2 0 1 []) (Tensor2 0 1 []) = Inr NaN \<and>
   RMSELoss_forward (Tensor2 0 1 []) (Tensor2 0 1 []) = Inr NaN \<and>
   \<not> is_nonneg NaN \<and> \<not> square_is NaN NaN"
  by (simp add: RMSELoss_forward_def mse_loss_def broadcast2_def bcompat_def bdim_def mean_def
        torch_sqrt_def is_nonneg_def square_is_def)

text \<open>
  Claim C8, amended: whenever the mean squared error of the two tensors is a number, which
  it is as soon as the broadcast of the two tensors has an element, the RMSE loss is its
  square root, so its square is the mean squared error of the same inputs and it is not
  negative. When the mean squared error is \<open>nan\<close> (no element) the RMSE loss is \<open>nan\<close>,
  and when it raises (shapes that do not broadcast) the RMSE loss raises the same error.
\<close>

theorem RMSELoss_forward_squared:
  "(\<forall>m. mse_loss input target = Inr (Value m) \<longrightarrow>
        RMSELoss_forward input target = Inr (Value (sqrt m)) \<and> (sqrt m)\<^sup>2 = m \<and> 0 \<le> sqrt m \<and>
        square_is (Value (sqrt m)) (Value m) \<and> is_nonneg (Value (sqrt m))) \<and>
   (\<forall>d. broadcast2 (\<lambda>x y. (x - y)\<^sup>2) input target = Inr d \<and> elements d \<noteq> [] \<longrightarrow>
        (\<exists>m. mse_loss input target = Inr (Value m))) \<and>
   (mse_loss input target = Inr NaN \<longrightarrow> RMSELoss_forward input target = Inr NaN) \<and>
   (\<forall>e. mse_loss input target = Inl e \<longrightarrow> RMSELoss_forward input target = Inl e)"
proof (intro conjI allI impI)
  fix m
  assume m: "mse_loss input target = Inr (Value m)"
  then have "0 \<le> m" by (rule mse_loss_nonneg)
  then show "RMSELoss_forward input target = Inr (Value (sqrt m))"
    and "(sqrt m)\<^sup>2 = m" and "0 \<le> sqrt m"
    and "square_is (Value (sqrt m)) (Value m)" and "is_nonneg (Value (sqrt m))"
    using m by (simp_all add: RMSELoss_forward_def torch_sqrt_def square_is_def is_nonneg_def)
next
  fix d
  assume "broadcast2 (\<lambda>x y. (x - y)\<^sup>2) input target = Inr d \<and> elements d \<noteq> []"
  then show "\<exists>m. mse_loss input target = Inr (Value m)"
    using mse_loss_number by blast
next
  assume "mse_loss input target = Inr NaN"
  then show "RMSELoss_forward input target = Inr NaN"
    by (simp add: RMSELoss_forward_def torch_sqrt_def)
next
  fix e
  assume "mse_loss input target = Inl e"
  then show "RMSELoss_forward input target = Inl e"
    by (simp add: RMSELoss_forward_def)
qed

lemma length_concat_rows:
  "\<forall>r\<in>set rs. length r = m \<Longrightarrow> length (concat rs) = length rs * m"
  by (induction rs) auto

lemma rows_map2_rows:
  assumes "\<forall>r\<in>set ra. length r = m" "\<forall>r\<in>set rb. length r = m"
  shows "\<forall>r\<in>set (map2 (map2 f) ra rb). length r = m"
proof
  fix r
  assume "r \<in> set (map2 (map2 f) ra rb)"
  then obtain a b where ab: "(a, b) \<in> set (zip ra rb)" and r: "r = map2 f a b"
    by auto
  from ab have "a \<in> set ra" and "b \<in> set rb"
    by (auto dest: set_zip_leftD set_zip_rightD)
  with assms have "length a = m" and "length b = m" by auto
  with r show "length r = m" by simp
qed

lemma length_concat_map2:
  assumes "length ra = n" and "length rb = n"
    and "\<forall>r\<in>set ra. length r = m" and "\<forall>r\<in>set rb. length r = m"
  shows "length (concat (map2 (map2 f) ra rb)) = n * m"
proof -
  have "\<forall>r\<in>set (map2 (map2 f) ra rb). length r = m"
    using assms by (intro rows_map2_rows) auto
  then have "length (concat (map2 (map2 f) ra rb)) = length (map2 (map2 f) ra rb) * m"
    by (rule length_concat_rows)
  then show ?thesis using assms by simp
qed

lemma mean_rows:
  assumes "length (concat rs) = n * m"
  shows "mean (Tensor2 n m rs) =
     (if n * m = 0 then NaN else Value (sum_list (concat rs) / real (n * m)))"
proof -
  have "(concat rs = []) = (n * m = 0)"
    using assms by (metis length_0_conv)
  then show ?thesis
    using assms by (simp add: mean_def)
qed

lemma mse_loss_same_shape:
  assumes "length ra = n" and "length rb = n"
    and "\<forall>r\<in>set ra. length r = m" and "\<forall>r\<in>set rb. length r = m"
  shows "mse_loss (Tensor2 n m ra) (Tensor2 n m rb) =
           Inr (if n * m = 0 then NaN
                else Value (sum_list (concat (map2 (map2 (\<lambda>x y. (x - y)\<^sup>2)) ra rb))
                            / real (n * m)))"
proof -
  have "length (concat (map2 (map2 (\<lambda>x y. (x - y)\<^sup>2)) ra rb)) = n * m"
    using assms by (rule length_concat_map2)
  then have "mean (Tensor2 n m (map2 (map2 (\<lambda>x y. (x - y)\<^sup>2)) ra rb)) =
     (if n * m = 0 then NaN
      else Value (sum_list (concat (map2 (map2 (\<lambda>x y. (x - y)\<^sup>2)) ra rb)) / real (n * m)))"
    by (rule mean_rows)
  then show ?thesis
    using assms by (simp add: mse_loss_def broadcast2_same_shape)
qed

text \<open>The amended claim C8 on equal shapes, on broadcast shapes and on incompatible shapes.\<close>

theorem RMSELoss_forward_squared_witness:
  "RMSELoss_forward (Tensor2 2 1 [[1], [7]]) (Tensor2 2 1 [[0], [0]]) = Inr (Value 5) \<and>
   RMSELoss_forward (Tensor2 2 1 [[1], [7]]) (Tensor2 2 3 [[0,0,0], [0,0,0]]) = Inr (Value 5) \<and>
   RMSELoss_forward (Tensor2 2 2 [[1, 1], [7, 7]]) (Tensor2 2 3 [[0,0,0], [0,0,0]]) =
     Inl RuntimeError"
proof -
  have m: "mse_loss (Tensor2 2 1 [[1], [7]]) (Tensor2 2 1 [[0], [0]]) = Inr (Value 25)"
    by (simp add: mse_loss_def broadcast2_def bcompat_def bdim_def bidx_def
          mean_def upt_rec)
  have m2: "mse_loss (Tensor2 2 1 [[1], [7]]) (Tensor2 2 3 [[0,0,0], [0,0,0]]) = Inr (Value 25)"
    by (simp add: mse_loss_def broadcast2_def bcompat_def bdim_def bidx_def
          mean_def upt_rec)
  have e: "mse_loss (Tensor2 2 2 [[1, 1], [7, 7]]) (Tensor2 2 3 [[0,0,0], [0,0,0]]) =
             Inl RuntimeError"
    by (simp add: mse_loss_def broadcast2_def bcompat_def)
  have s: "sqrt 25 = 5"
    using real_sqrt_abs [of 5] by simp
  show ?thesis
    using RMSELoss_forward_squared [of "Tensor2 2 1 [[1], [7]]" "Tensor2 2 1 [[0], [0]]"]
      RMSELoss_forward_squared [of "Tensor2 2 1 [[1], [7]]" "Tensor2 2 3 [[0,0,0], [0,0,0]]"]
      RMSELoss_forward_squared [of "Tensor2 2 2 [[1, 1], [7, 7]]" "Tensor2 2 3 [[0,0,0], [0,0,0]]"]
      m m2 e s by simp
qed

lemma map2_map2_map_map:
  "map2 (map2 f) (map (map g) ra) (map (map h) rb) = map2 (map2 (\<lambda>x y. f (g x) (h y))) ra rb"
  by (simp add: zip_map_map case_prod_unfold)

lemma log1p_tensor:
  "torch_log (add_scalar (Tensor2 n m rs) 1) = Tensor2 n m (map (map (\<lambda>x. ln (x + 1))) rs)"
  by (simp add: torch_log_def add_scalar_def comp_def)

text \<open>
  Claim C7: the MSLE loss of \<open>p\<close> and \<open>t\<close> is the mean squared error of
  \<open>log (p + 1)\<close> and \<open>log (t + 1)\<close>, and the RMSLE loss is the square root of that
  same value. On non-negative tensors of one shape it is the mean over all elements of
  the squared difference of the two logarithms (\<open>nan\<close> when there is no element).
\<close>

theorem MSLELoss_forward_log_mse:
  "MSLELoss_forward p t = mse_loss (torch_log (add_scalar p 1)) (torch_log (add_scalar t 1)) \<and>
   RMSLELoss_forward p t =
     (case MSLELoss_forward p t of Inl e \<Rightarrow> Inl e | Inr m \<Rightarrow> Inr (torch_sqrt m)) \<and>
   (\<forall>n m ra rb.
      p = Tensor2 n m ra \<and> t = Tensor2 n m rb \<and> length ra = n \<and> length rb = n \<and>
      (\<forall>r\<in>set ra. length r = m \<and> (\<forall>x\<in>set r. 0 \<le> x)) \<and>
      (\<forall>r\<in>set rb. length r = m \<and> (\<forall>x\<in>set r. 0 \<le> x)) \<longrightarrow>
      MSLELoss_forward p t =
        Inr (if n * m = 0 then NaN
             else Value (sum_list (concat
                    (map2 (map2 (\<lambda>x y. (ln (x + 1) - ln (y + 1))\<^sup>2)) ra rb)) / real (n * m))))"
proof (intro conjI allI impI)
  show "MSLELoss_forward p t = mse_loss (torch_log (add_scalar p 1)) (torch_log (add_scalar t 1))"
    by (simp add: MSLELoss_forward_def)
next
  show "RMSLELoss_forward p t =
     (case MSLELoss_forward p t of Inl e \<Rightarrow> Inl e | Inr m \<Rightarrow> Inr (torch_sqrt m))"
    by (simp add: RMSLELoss_forward_def MSLELoss_forward_def then_do_def)
next
  fix n m ra rb
  assume a: "p = Tensor2 n m ra \<and> t = Tensor2 n m rb \<and> length ra = n \<and> length rb = n \<and>
      (\<forall>r\<in>set ra. length r = m \<and> (\<forall>x\<in>set r. 0 \<le> x)) \<and>
      (\<forall>r\<in>set rb. length r = m \<and> (\<forall>x\<in>set r. 0 \<le> x))"
  then have "mse_loss (Tensor2 n m (map (map (\<lambda>x. ln (x + 1))) ra))
                (Tensor2 n m (map (map (\<lambda>x. ln (x + 1))) rb)) =
        Inr (if n * m = 0 then NaN
             else Value (sum_list (concat (map2 (map2 (\<lambda>x y. (x - y)\<^sup>2))
               (map (map (\<lambda>x. ln (x + 1))) ra) (map (map (\<lambda>x. ln (x + 1))) rb)))
                 / real (n * m)))"
    by (intro mse_loss_same_shape) auto
  then show "MSLELoss_forward p t =
        Inr (if n * m = 0 then NaN
             else Value (sum_list (concat
                    (map2 (map2 (\<lambda>x y. (ln (x + 1) - ln (y + 1))\<^sup>2)) ra rb)) / real (n * m)))"
    using a by (simp add: MSLELoss_forward_def log1p_tensor map2_map2_map_map)
qed

text \<open>Claim C7 at the prediction \<open>0\<close> for the target \<open>1\<close>.\<close>

theorem MSLELoss_forward_log_mse_witness:
  "MSLELoss_forward (Tensor2 1 1 [[0]]) (Tensor2 1 1 [[1]]) = Inr (Value ((ln 2)\<^sup>2)) \<and>
   RMSLELoss_forward (Tensor2 1 1 [[0]]) (Tensor2 1 1 [[1]]) = Inr (Value (ln 2))"
proof -
  let ?p = "Tensor2 1 1 [[0]]" and ?t = "Tensor2 1 1 [[1]]"
  note a = MSLELoss_forward_log_mse [of ?p ?t]
  from a have "\<forall>n m ra rb.
      ?p = Tensor2 n m ra \<and> ?t = Tensor2 n m rb \<and> length ra = n \<and> length rb = n \<and>
      (\<forall>r\<in>set ra. length r = m \<and> (\<forall>x\<in>set r. 0 \<le> x)) \<and>
      (\<forall>r\<in>set rb. length r = m \<and> (\<forall>x\<in>set r. 0 \<le> x)) \<longrightarrow>
      MSLELoss_forward ?p ?t =
        Inr (if n * m = 0 then NaN
             else Value (sum_list (concat
                    (map2 (map2 (\<lambda>x y. (ln (x + 1) - ln (y + 1))\<^sup>2)) ra rb)) / real (n * m)))"
    by blast
  from this [rule_format, of 1 1 "[[0]]" "[[1]]"]
  have m: "MSLELoss_forward ?p ?t = Inr (Value ((ln 2)\<^sup>2))"
    by simp
  have "0 < ln (2::real)" by simp
  then have "sqrt ((ln 2)\<^sup>2) = ln (2::real)" by simp
  with a m show ?thesis by (simp add: torch_sqrt_def)
qed
















section \<open>Properties of the model composer\<close>

lemma raises_if: "(\<exists>e. (if c then Inl a else x) = Inl e) = (c \<or> (\<exists>e. x = Inl e))"
  by auto

lemma check_wide_raised:
  "wide_check wide' pd = Inl e \<Longrightarrow>
   check_model_components wide' tab tex img head hld pd = Inl e"
  by (simp add: check_model_components_def)

lemma wide_check_mismatch:
  assumes "wide' = Some w" and "wide_width w \<noteq> Inr pd"
  shows "\<exists>e. wide_check wide' pd = Inl e"
  using assms by (cases "wide_width w") (auto simp add: wide_check_def)

lemma deephead_check_width:
  assumes "head = Some h"
    and "\<not> (\<exists>d. first_param_width h = Inr d \<and> deep_output_dim tab tex img = Inr d)"
  shows "\<exists>e. deephead_check head tab tex img = Inl e"
  using assms
  by (cases "first_param_width h"; cases "deep_output_dim tab tex img")
     (auto simp add: deephead_check_def)

lemma check_wide_mismatch:
  assumes "wide' = Some w" and "wide_width w \<noteq> Inr pd"
  shows "\<exists>e. check_model_components wide' tab tex img head hld pd = Inl e"
  using wide_check_mismatch [OF assms] check_wide_raised by blast

lemma check_missing_output_dim:
  assumes "tab = Some b \<or> tex = Some b \<or> img = Some b" and "output_dim b = None"
  shows "\<exists>e. check_model_components wide' tab tex img head hld pd = Inl e"
proof (cases "wide_check wide' pd")
  case (Inl e)
  then show ?thesis using check_wide_raised by blast
next
  case (Inr u)
  then show ?thesis
    using assms by (elim disjE) (simp_all add: check_model_components_def)
qed

lemma check_both_heads:
  assumes "head \<noteq> None" and "hld \<noteq> None"
  shows "\<exists>e. check_model_components wide' tab tex img head hld pd = Inl e"
proof (cases "wide_check wide' pd")
  case (Inl e)
  then show ?thesis using check_wide_raised by blast
next
  case (Inr u)
  then show ?thesis
    using assms by (simp add: check_model_components_def)
qed

lemma check_head_without_deep:
  assumes "hld \<noteq> None" and "tab = None" and "tex = None" and "img = None"
  shows "\<exists>e. check_model_components wide' tab tex img head hld pd = Inl e"
proof (cases "wide_check wide' pd")
  case (Inl e)
  then show ?thesis using check_wide_raised by blast
next
  case (Inr u)
  then show ?thesis
    using assms by (simp add: check_model_components_def is_true_def)
qed

lemma check_head_width:
  assumes "head = Some h"
    and "\<not> (\<exists>d. first_param_width h = Inr d \<and> deep_output_dim tab tex img = Inr d)"
  shows "\<exists>e. check_model_components wide' tab tex img head hld pd = Inl e"
proof (cases "wide_check wide' pd")
  case (Inl e)
  then show ?thesis using check_wide_raised by blast
next
  case (Inr u)
  from deephead_check_width [OF assms] obtain e where "deephead_check head tab tex img = Inl e"
    by blast
  then have "\<exists>e. deephead_check head tab tex img = Inl e" by blast
  then show ?thesis
    unfolding check_model_components_def Inr then_do_Inr raises_if by blast
qed

lemma init_error:
  assumes "check_model_components wide' tab tex img head hld pd = Inl e"
  shows "WideDeep_init MLP wide' tab tex img head hld args pd g = Inl e"
  using assms by (simp add: WideDeep_init_def)

text \<open>
  Claim C5: building a model raises, in \<open>_check_model_components\<close> and so before any
  model exists on which \<open>forward\<close> could be called, in each of the five cases: the
  width of the wide component is not \<open>pred_dim\<close>; a deep component has no
  \<open>output_dim\<close>; a head and head layer widths are both given; head layer widths are given
  without any deep component; the input width of a given head is not the sum of the
  \<open>output_dim\<close> of the deep components.
\<close>

theorem WideDeep_init_rejects:
  assumes "(\<exists>w. wd = Some w \<and> wide_width w \<noteq> Inr pd) \<or>
           (\<exists>b. (tab = Some b \<or> tex = Some b \<or> img = Some b) \<and> output_dim b = None) \<or>
           (head \<noteq> None \<and> hld \<noteq> None) \<or>
           (hld \<noteq> None \<and> tab = None \<and> tex = None \<and> img = None) \<or>
           (\<exists>h. head = Some h \<and>
              \<not> (\<exists>d. first_param_width h = Inr d \<and> deep_output_dim tab tex img = Inr d))"
  shows "\<exists>e. check_model_components wd tab tex img head hld pd = Inl e \<and>
             WideDeep_init MLP wd tab tex img head hld args pd g = Inl e"
proof -
  have "\<exists>e. check_model_components wd tab tex img head hld pd = Inl e"
  proof -
    consider (a) w where "wd = Some w" "wide_width w \<noteq> Inr pd"
      | (b) b where "tab = Some b \<or> tex = Some b \<or> img = Some b" "output_dim b = None"
      | (c) "head \<noteq> None" "hld \<noteq> None"
      | (d) "hld \<noteq> None" "tab = None" "tex = None" "img = None"
      | (e) h where "head = Some h"
          "\<not> (\<exists>d. first_param_width h = Inr d \<and> deep_output_dim tab tex img = Inr d)"
      using assms by blast
    then show ?thesis
    proof cases
      case a then show ?thesis by (rule check_wide_mismatch)
    next
      case b then show ?thesis by (rule check_missing_output_dim)
    next
      case c then show ?thesis by (rule check_both_heads)
    next
      case d then show ?thesis by (rule check_head_without_deep)
    next
      case e then show ?thesis by (rule check_head_width)
    qed
  qed
  then show ?thesis
    using init_error by blast
qed

lemma check_all_absent: "check_model_components None None None None None None pd = Inr ()"
  by (simp add: check_model_components_def is_true_def wide_check_def deephead_check_def)

lemma size_at_0: "\<exists>n. size_at t 0 = Inr n"
  by (cases t) (simp_all add: size_at_def)

lemma first_batch_size_Cons:
  "first_batch_size ((k, t) # X) = size_at t 0"
  by (simp add: first_batch_size_def getitem_def)

text \<open>
  Claim C10: with all five components and the head layer widths absent no check fires and
  the model is built with every component absent. Its forward pass on a batch with at
  least one entry returns the all-zero tensor of shape \<open>(batch_size, pred_dim)\<close>, where
  \<open>batch_size\<close> is the first dimension of the first entry, and leaves the generator
  untouched; on the empty batch it raises IndexError.
\<close>

theorem WideDeep_all_absent:
  "check_model_components None None None None None None pd = Inr () \<and>
   (\<exists>self. WideDeep_init MLP None None None None None None args pd g = Inr (self, g) \<and>
      wide self = None \<and> deeptabular self = None \<and> deeptext self = None \<and>
      deepimage self = None \<and> deephead self = None \<and> pred_dim self = pd \<and>
      (\<forall>k t X g'. \<exists>batch_size. size_at t 0 = Inr batch_size \<and>
         WideDeep_forward self ((k, t) # X) g' =
           Inr (Tensor2 batch_size pd (replicate batch_size (replicate pd 0)), g')) \<and>
      (\<forall>g'. WideDeep_forward self [] g' = Inl IndexError))"
proof -
  let ?self = "\<lparr> pred_dim = pd, wide = None, deeptabular = None, deeptext = None,
                 deepimage = None, deephead = None \<rparr>"
  have i: "WideDeep_init MLP None None None None None None args pd g = Inr (?self, g)"
    by (simp add: WideDeep_init_def check_all_absent add_pred_layer_def Let_def)
  have f: "\<exists>batch_size. size_at t 0 = Inr batch_size \<and>
         WideDeep_forward ?self ((k, t) # X) g' =
           Inr (Tensor2 batch_size pd (replicate batch_size (replicate pd 0)), g')" for k t X g'
  proof -
    obtain n where n: "size_at t 0 = Inr n" using size_at_0 by blast
    then show ?thesis
      by (simp add: WideDeep_forward_def first_batch_size_Cons is_true_def add_branch_def
            torch_zeros_def)
  qed
  have e: "WideDeep_forward ?self [] g' = Inl IndexError" for g'
    by (simp add: WideDeep_forward_def first_batch_size_def)
  show ?thesis
    using i f e check_all_absent by (intro conjI exI [of _ ?self]) simp_all
qed

text \<open>Claim C10 for two output columns, on a batch of two examples and on the empty batch.\<close>

theorem WideDeep_all_absent_witness:
  "\<exists>self. WideDeep_init example_MLP None None None None None None example_args 2 example_rng =
            Inr (self, example_rng) \<and>
     WideDeep_forward self example_batch2 example_rng =
       Inr (Tensor2 2 2 [[0, 0], [0, 0]], example_rng) \<and>
     WideDeep_forward self [] example_rng = Inl IndexError"
proof -
  from WideDeep_all_absent [of 2 example_MLP example_args example_rng]
  obtain self where i: "WideDeep_init example_MLP None None None None None None example_args 2
                          example_rng = Inr (self, example_rng)"
    and f: "\<forall>k t X g'. \<exists>batch_size. size_at t 0 = Inr batch_size \<and>
         WideDeep_forward self ((k, t) # X) g' =
           Inr (Tensor2 batch_size 2 (replicate batch_size (replicate 2 0)), g')"
    and e: "\<forall>g'. WideDeep_forward self [] g' = Inl IndexError"
    by blast
  from f [rule_format, of "Tensor2 2 1 [[5], [6]]" "''deeptabular''" "[]" example_rng]
  have "WideDeep_forward self example_batch2 example_rng =
       Inr (Tensor2 2 2 [[0, 0], [0, 0]], example_rng)"
    by (auto simp add: example_batch2_def size_at_def numeral_2_eq_2)
  with i e show ?thesis by blast
qed

text \<open>Claim C5 at one model for each of the five cases.\<close>

theorem WideDeep_init_rejects_witness:
  "(\<exists>e. WideDeep_init example_MLP (Some example_wide) None None None None None example_args 2
          example_rng = Inl e) \<and>
   (\<exists>e. WideDeep_init example_MLP None (Some example_wide) None None None None example_args 1
          example_rng = Inl e) \<and>
   (\<exists>e. WideDeep_init example_MLP None (Some (identity_module 1)) None None
          (Some (identity_module 1)) (Some [1]) example_args 1 example_rng = Inl e) \<and>
   (\<exists>e. WideDeep_init example_MLP None None None None None (Some [4]) example_args 1
          example_rng = Inl e) \<and>
   (\<exists>e. WideDeep_init example_MLP None (Some (identity_module 1)) None None
          (Some (identity_module 3)) None example_args 1 example_rng = Inl e)"
proof -
  have a: "wide_width example_wide \<noteq> Inr 2"
    by (simp add: wide_width_def example_wide_def shape_size_def)
  have b: "output_dim example_wide = None"
    by (simp add: example_wide_def)
  have e: "\<not> (\<exists>d. first_param_width (identity_module 3) = Inr d \<and>
                 deep_output_dim (Some (identity_module 1)) None None = Inr d)"
    by (simp add: first_param_width_def identity_module_def shape_size_def
          deep_output_dim_def add_output_dim_def get_output_dim_def)
  have c1: "\<exists>e. WideDeep_init example_MLP (Some example_wide) None None None None None
               example_args 2 example_rng = Inl e"
    using a
      WideDeep_init_rejects [where wd = "Some example_wide" and pd = 2 and tab = None
        and tex = None and img = None and head = None and hld = None and MLP = example_MLP
        and args = example_args and g = example_rng]
    by blast
  have c2: "\<exists>e. WideDeep_init example_MLP None (Some example_wide) None None None None
               example_args 1 example_rng = Inl e"
    using b
      WideDeep_init_rejects [where wd = None and pd = 1 and tab = "Some example_wide"
        and tex = None and img = None and head = None and hld = None and MLP = example_MLP
        and args = example_args and g = example_rng]
    by blast
  have c3: "\<exists>e. WideDeep_init example_MLP None (Some (identity_module 1)) None None
          (Some (identity_module 1)) (Some [1]) example_args 1 example_rng = Inl e"
    using
      WideDeep_init_rejects [where wd = None and pd = 1 and tab = "Some (identity_module 1)"
        and tex = None and img = None and head = "Some (identity_module 1)"
        and hld = "Some [1]" and MLP = example_MLP and args = example_args and g = example_rng]
    by blast
  have c4: "\<exists>e. WideDeep_init example_MLP None None None None None (Some [4]) example_args 1
          example_rng = Inl e"
    using
      WideDeep_init_rejects [where wd = None and pd = 1 and tab = None
        and tex = None and img = None and head = None and hld = "Some [4]"
        and MLP = example_MLP and args = example_args and g = example_rng]
    by blast
  have c5: "\<exists>e. WideDeep_init example_MLP None (Some (identity_module 1)) None None
          (Some (identity_module 3)) None example_args 1 example_rng = Inl e"
    using e
      WideDeep_init_rejects [where wd = None and pd = 1 and tab = "Some (identity_module 1)"
        and tex = None and img = None and head = "Some (identity_module 3)"
        and hld = None and MLP = example_MLP and args = example_args and g = example_rng]
    by blast
  from c1 c2 c3 c4 c5 show ?thesis by (intro conjI)
qed










lemma init_no_head:
  assumes "WideDeep_init MLP w tab tex img None None args pd g = Inr (self, g1)"
  shows "\<exists>tab' tex' img' ga gb.
           add_pred_layer tab pd g = Inr (tab', ga) \<and>
           add_pred_layer tex pd ga = Inr (tex', gb) \<and>
           add_pred_layer img pd gb = Inr (img', g1) \<and>
           self = \<lparr> pred_dim = pd, wide = w, deeptabular = tab', deeptext = tex',
                     deepimage = img', deephead = None \<rparr>"
  using assms
  by (cases "check_model_components w tab tex img None None pd")
     (auto simp add: WideDeep_init_def Let_def then_do_def split: sum.splits prod.splits)







lemma nn_Linear_1_1:
  "nn_Linear (Suc 0) (Suc 0) (s, p) =
     (Linear (Suc 0) (Suc 0) [[s p]] [s (Suc p)], (s, Suc (Suc p)))"
  by (simp add: nn_Linear_def draw_def)

lemma add_inplace_1_1:
  "add_inplace (Tensor2 (Suc 0) (Suc 0) [[a]]) (Tensor2 (Suc 0) (Suc 0) [[b]]) =
     Inr (Tensor2 (Suc 0) (Suc 0) [[a + b]])"
  by (simp add: add_inplace_def broadcast2_def bcompat_def bdim_def bidx_def)




lemma example_forward_head:
  "WideDeep_forward example_head_model example_batch (s, p) =
     Inr (Tensor2 1 1 [[s p + s (p + 1)]], (s, p + 2))"
  by (simp add: WideDeep_forward_def example_head_model_def example_batch_def
        first_batch_size_def getitem_def size_at_def torch_zeros_def is_true_def
        identity_module_def call_on_def cat_branch_def nn_Linear_1_1 linear_row_def dot_def
        add_inplace_1_1)

lemma example_forward_declarative:
  "WideDeep_forward example_declarative_model example_batch (s, p) =
     Inr (Tensor2 1 1 [[s p * 3 + s (p + 1)]], (s, p + 2))"
  by (simp add: WideDeep_forward_def example_declarative_model_def example_batch_def
        first_batch_size_def getitem_def size_at_def torch_zeros_def is_true_def
        call_on_def cat_branch_def nn_Linear_1_1 linear_row_def dot_def
        add_inplace_1_1 identity_module_def example_declarative_head_def add_module_def)

lemma example_head_init:
  "WideDeep_init example_MLP None (Some (identity_module 1)) None None (Some (identity_module 1))
     None example_args 1 example_rng = Inr (example_head_model, example_rng)"
proof -
  have "check_model_components None (Some (identity_module 1)) None None
          (Some (identity_module 1)) None 1 = Inr ()"
    by (simp add: check_model_components_def identity_module_def is_true_def
          wide_check_def deephead_check_def
          first_param_width_def shape_size_def deep_output_dim_def add_output_dim_def
          get_output_dim_def)
  then show ?thesis
    by (simp add: WideDeep_init_def example_head_model_def Let_def)
qed

lemma example_declarative_init:
  "WideDeep_init example_MLP None (Some (identity_module 1)) None None None (Some [1])
     example_args 1 example_rng = Inr (example_declarative_model, (fst example_rng, 2))"
proof -
  have c: "check_model_components None (Some (identity_module 1)) None None None (Some [1]) 1 =
          Inr ()"
    by (simp add: check_model_components_def identity_module_def is_true_def wide_check_def
          deephead_check_def)
  from c show ?thesis
    by (simp add: WideDeep_init_def Let_def deep_output_dim_def add_output_dim_def
          get_output_dim_def identity_module_def example_MLP_def example_rng_def
          nn_Linear_1_1 example_declarative_model_def example_declarative_head_def
          numeral_2_eq_2)
qed

text \<open>
  Claim C1 on the code: with a head, every call of \<open>forward\<close> constructs a linear layer
  and with it draws new parameters from the generator. The components of both models are
  pure functions, the batch is the same, and two calls in a row return different
  tensors: \<open>3\<close> then \<open>7\<close> with a head passed by the user, \<open>13\<close> then \<open>21\<close> with a
  head built from layer widths.
\<close>

theorem forward_with_head_not_repeatable:
  "WideDeep_init example_MLP None (Some (identity_module 1)) None None (Some (identity_module 1))
     None example_args 1 example_rng = Inr (example_head_model, example_rng) \<and>
   WideDeep_forward example_head_model example_batch example_rng =
     Inr (Tensor2 1 1 [[3]], (fst example_rng, 2)) \<and>
   WideDeep_forward example_head_model example_batch (fst example_rng, 2) =
     Inr (Tensor2 1 1 [[7]], (fst example_rng, 4)) \<and>
   WideDeep_forward example_declarative_model example_batch (fst example_rng, 2) =
     Inr (Tensor2 1 1 [[13]], (fst example_rng, 4)) \<and>
   WideDeep_forward example_declarative_model example_batch (fst example_rng, 4) =
     Inr (Tensor2 1 1 [[21]], (fst example_rng, 6))"
proof -
  have a: "WideDeep_forward example_head_model example_batch example_rng =
     Inr (Tensor2 1 1 [[3]], (fst example_rng, 2))"
    using example_forward_head [of "fst example_rng" 0] by (simp add: example_rng_def)
  have b: "WideDeep_forward example_head_model example_batch (fst example_rng, 2) =
     Inr (Tensor2 1 1 [[7]], (fst example_rng, 4))"
    using example_forward_head [of "fst example_rng" 2] by (simp add: example_rng_def)
  have c: "WideDeep_forward example_declarative_model example_batch (fst example_rng, 2) =
     Inr (Tensor2 1 1 [[13]], (fst example_rng, 4))"
    using example_forward_declarative [of "fst example_rng" 2] by (simp add: example_rng_def)
  have d: "WideDeep_forward example_declarative_model example_batch (fst example_rng, 4) =
     Inr (Tensor2 1 1 [[21]], (fst example_rng, 6))"
    using example_forward_declarative [of "fst example_rng" 4] by (simp add: example_rng_def)
  show ?thesis
    by (intro conjI) (rule example_head_init a b c d)+
qed

text \<open>
  Without a head \<open>forward\<close> constructs nothing: a model built with neither a head nor head
  layer widths has no head, and the outcome of its forward pass does not depend on the
  generator, which it returns as it was.
\<close>

lemma forward_without_head_repeatable:
  "(WideDeep_init MLP w tab tex img None None args pd g0 = Inr (self, g1) \<longrightarrow>
      \<not> is_true (deephead self)) \<and>
   (\<not> is_true (deephead self) \<longrightarrow>
      (\<exists>r. \<forall>g. WideDeep_forward self X g = (case r of Inl e \<Rightarrow> Inl e | Inr y \<Rightarrow> Inr (y, g))))"
proof (intro conjI impI)
  assume "WideDeep_init MLP w tab tex img None None args pd g0 = Inr (self, g1)"
  from init_no_head [OF this] show "\<not> is_true (deephead self)"
    by (auto simp add: is_true_def)
next
  assume h: "\<not> is_true (deephead self)"
  let ?out = "case wide self of
                Some w \<Rightarrow> call_on w X ''wide''
              | None \<Rightarrow> then_do (first_batch_size X)
                          (\<lambda>batch_size. Inr (torch_zeros batch_size (pred_dim self)))"
  let ?r = "then_do ?out (\<lambda>out.
       then_do (add_branch (deeptabular self) X ''deeptabular'' out) (\<lambda>out.
       then_do (add_branch (deeptext self) X ''deeptext'' out) (\<lambda>out.
         add_branch (deepimage self) X ''deepimage'' out)))"
  have "WideDeep_forward self X g = (case ?r of Inl e \<Rightarrow> Inl e | Inr y \<Rightarrow> Inr (y, g))" for g
    using h by (simp add: WideDeep_forward_def then_do_def split: sum.splits)
  then show "\<exists>r. \<forall>g. WideDeep_forward self X g =
                (case r of Inl e \<Rightarrow> Inl e | Inr y \<Rightarrow> Inr (y, g))"
    by blast
qed

text \<open>
  Claim C2 on the code: the model is built from the head layer widths \<open>[1]\<close> over a
  tabular branch that returns its input. The head built at construction time ends in the
  projection \<open>head_out\<close> (weight \<open>1\<close>, bias \<open>2\<close>) and maps the activation \<open>1\<close> to
  \<open>3\<close>, which the claim says is the deep contribution. \<open>forward\<close> passes that output
  through one more linear layer, constructed in the call (weight \<open>3\<close>, bias \<open>4\<close>), and
  returns \<open>13\<close>.
\<close>

theorem forward_declarative_head_extra_projection:
  "WideDeep_init example_MLP None (Some (identity_module 1)) None None None (Some [1])
     example_args 1 example_rng = Inr (example_declarative_model, (fst example_rng, 2)) \<and>
   deephead example_declarative_model = Some example_declarative_head \<and>
   call_on (identity_module 1) example_batch ''deeptabular'' = Inr (Tensor2 1 1 [[1]]) \<and>
   forward example_declarative_head (Tensor2 1 1 [[1]]) = Inr (Tensor2 1 1 [[3]]) \<and>
   WideDeep_forward example_declarative_model example_batch (fst example_rng, 2) =
     Inr (Tensor2 1 1 [[13]], (fst example_rng, 4))"
proof -
  have d: "deephead example_declarative_model = Some example_declarative_head"
    by (simp add: example_declarative_model_def)
  have h: "forward example_declarative_head (Tensor2 1 1 [[1]]) = Inr (Tensor2 1 1 [[3]])"
    by (simp add: example_declarative_head_def add_module_def identity_module_def
          linear_row_def dot_def)
  have b: "call_on (identity_module 1) example_batch ''deeptabular'' = Inr (Tensor2 1 1 [[1]])"
    by (simp add: call_on_def example_batch_def getitem_def identity_module_def)
  have f: "WideDeep_forward example_declarative_model example_batch (fst example_rng, 2) =
     Inr (Tensor2 1 1 [[13]], (fst example_rng, 4))"
    using example_forward_declarative [of "fst example_rng" 2] by (simp add: example_rng_def)
  show ?thesis
    by (intro conjI) (rule example_declarative_init d b h f)+
qed

end
